theory Spec2Isabelle
  imports Main
begin

section \<open>JavaScript values and the operations the server applies to them\<close>

text \<open>
  The server handles parsed JSON: the body of the metadata API's answer. A value is
  modelled as the JavaScript value it is. An object is its list of key/value pairs in
  source order; a later binding of a key overrides an earlier one, as in JavaScript.
  Numbers are never computed with here, so an integer payload stands for them.
\<close>

datatype jsval =
    JUndefined
  | JNull
  | JBool bool
  | JNum int
  | JStr string
  | JArr "jsval list"
  | JObj "(string \<times> jsval) list"

text \<open>
  What can be thrown inside the handler: a \<open>TypeError\<close> of the language itself (a
  property read on \<open>undefined\<close> or \<open>null\<close>, a call of something that is no function),
  a rejection of the store's query, a rejection of the HTTP client. The payload is the
  error's own text: the internals a response must not show.
\<close>

datatype js_error =
    TypeError string
  | StoreError string
  | AxiosError string

text \<open>Sequencing of steps that may throw: the first error ends the computation.\<close>

definition bindE :: "js_error + 'a \<Rightarrow> ('a \<Rightarrow> js_error + 'b) \<Rightarrow> js_error + 'b" where
  "bindE m f = (case m of Inl e \<Rightarrow> Inl e | Inr v \<Rightarrow> f v)"

text \<open>
  \<open>v.k\<close>: throws on \<open>undefined\<close> and \<open>null\<close>; on an object it is the value bound to
  \<open>k\<close>, \<open>undefined\<close> when there is none; on every other value it is \<open>undefined\<close> for
  the keys read in this program (none of them is a built-in property of a string, a
  number, a boolean or an array).
\<close>

fun get_prop :: "jsval \<Rightarrow> string \<Rightarrow> js_error + jsval" where
  "get_prop JUndefined k = Inl (TypeError k)"
| "get_prop JNull k = Inl (TypeError k)"
| "get_prop (JObj kvs) k = Inr (case map_of (rev kvs) k of None \<Rightarrow> JUndefined | Some v \<Rightarrow> v)"
| "get_prop v k = Inr JUndefined"

text \<open>Applies a step that may throw to each element, left to right.\<close>

fun mapE :: "('a \<Rightarrow> js_error + 'b) \<Rightarrow> 'a list \<Rightarrow> js_error + 'b list" where
  "mapE f [] = Inr []"
| "mapE f (x # xs) = bindE (f x) (\<lambda>y. bindE (mapE f xs) (\<lambda>ys. Inr (y # ys)))"

text \<open>
  \<open>v.map(f)\<close>: on an array, the array of the results; on \<open>undefined\<close> and \<open>null\<close> the
  read of \<open>map\<close> throws; on any other parsed JSON value \<open>v.map\<close> is no function and the
  call throws.
\<close>

fun array_map :: "(jsval \<Rightarrow> js_error + jsval) \<Rightarrow> jsval \<Rightarrow> js_error + jsval list" where
  "array_map f (JArr xs) = mapE f xs"
| "array_map f v = Inl (TypeError ''map'')"

text \<open>\<open>xs.join(sep)\<close> on an array of strings.\<close>

fun join :: "string \<Rightarrow> string list \<Rightarrow> string" where
  "join sep [] = []"
| "join sep [x] = x"
| "join sep (x # y # ys) = x @ sep @ join sep (y # ys)"

section \<open>The server: \<open>GET /videos\<close>\<close>

text \<open>
  A document of the \<open>videos\<close> collection, as far as the handler reads it: its
  \<open>videoId\<close> field, a string in every document of the catalog.
\<close>

record catalog_doc =
  doc_videoId :: string

text \<open>
  What the handler depends on. \<open>db\<close> is the process-wide handle: \<open>None\<close> when the
  connection was never established (the variable is still \<open>undefined\<close>), otherwise the
  outcome of \<open>find({}).toArray()\<close> on the \<open>videos\<close> collection. \<open>youtubeApiKey\<close> is the
  environment variable, \<open>None\<close> when it is not set. \<open>axios_get\<close> is the metadata API
  seen through the HTTP client: for a URL, a rejection (network failure, status outside
  2xx) or the \<open>data\<close> of the response.
\<close>

record env =
  db :: "(js_error + catalog_doc list) option"
  youtubeApiKey :: "string option"
  axios_get :: "string \<Rightarrow> js_error + jsval"

record http_response =
  status :: nat
  body :: jsval

text \<open>
  What one request does: the response sent, the URLs requested from the metadata API
  in order, and what was written to the server's console.
\<close>

record outcome =
  response :: http_response
  outbound :: "string list"
  console :: "(string \<times> js_error) list"

text \<open>The template literal of the request URL; an unset key prints as \<open>undefined\<close>.\<close>

definition youtubeApiUrl :: "string \<Rightarrow> string option \<Rightarrow> string" where
  "youtubeApiUrl videoIds key =
     ''https://www.googleapis.com/youtube/v3/videos?part=snippet,contentDetails&id='' @ videoIds
       @ ''&key='' @ (case key of None \<Rightarrow> ''undefined'' | Some k \<Rightarrow> k)"

text \<open>
  The callback of \<open>youtubeItems.map\<close>: the object literal, its properties evaluated in
  source order, each read throwing where JavaScript throws.
\<close>

definition format_item :: "jsval \<Rightarrow> js_error + jsval" where
  "format_item item =
     bindE (get_prop item ''id'') (\<lambda>v_id.
     bindE (get_prop item ''snippet'') (\<lambda>s1.
     bindE (get_prop s1 ''title'') (\<lambda>v_title.
     bindE (get_prop item ''snippet'') (\<lambda>s2.
     bindE (get_prop s2 ''channelTitle'') (\<lambda>v_channel.
     bindE (get_prop item ''snippet'') (\<lambda>s3.
     bindE (get_prop s3 ''thumbnails'') (\<lambda>thumbs.
     bindE (get_prop thumbs ''high'') (\<lambda>high.
     bindE (get_prop high ''url'') (\<lambda>v_thumb.
     bindE (get_prop item ''contentDetails'') (\<lambda>details.
     bindE (get_prop details ''duration'') (\<lambda>v_duration.
       Inr (JObj [(''videoId'', v_id),
                  (''title'', v_title),
                  (''channelTitle'', v_channel),
                  (''thumbnail'', v_thumb),
                  (''duration'', v_duration)]))))))))))))"

text \<open>\<open>videoDocs.map(doc => doc.videoId).join(',')\<close>.\<close>

definition videoIds :: "catalog_doc list \<Rightarrow> string" where
  "videoIds videoDocs = join '','' (map doc_videoId videoDocs)"

text \<open>
  The body of the \<open>try\<close> block: the value handed to \<open>res.json\<close> or the error thrown,
  with the URLs requested on the way. Reading \<open>db.collection\<close> on the unset handle
  throws before anything else happens.
\<close>

definition try_block :: "env \<Rightarrow> (js_error + jsval) \<times> string list" where
  "try_block e =
     (case db e of
        None \<Rightarrow> (Inl (TypeError ''collection''), [])
      | Some found \<Rightarrow>
          (case found of
             Inl err \<Rightarrow> (Inl err, [])
           | Inr videoDocs \<Rightarrow>
               (let url = youtubeApiUrl (videoIds videoDocs) (youtubeApiKey e)
                in (case axios_get e url of
                      Inl err \<Rightarrow> (Inl err, [url])
                    | Inr data \<Rightarrow>
                        (bindE (get_prop data ''items'') (\<lambda>youtubeItems.
                         bindE (array_map format_item youtubeItems) (\<lambda>enrichedVideos.
                           Inr (JArr enrichedVideos))),
                         [url])))))"

text \<open>What the \<open>catch\<close> block sends.\<close>

definition failure_response :: http_response where
  "failure_response =
     \<lparr>status = 500, body = JObj [(''message'', JStr ''Failed to fetch videos'')]\<rparr>"

text \<open>
  The handler: \<open>res.json(enrichedVideos)\<close> answers 200 with the value it is given; the
  \<open>catch\<close> block logs the error and answers 500 with the fixed message. The body
  recorded is the value handed to \<open>res.json\<close>; writing it out as JSON text is the
  framework's part (it leaves out the fields of an object that are \<open>undefined\<close>).
\<close>

definition get_videos :: "env \<Rightarrow> outcome" where
  "get_videos e =
     (case try_block e of
        (Inr enrichedVideos, calls) \<Rightarrow>
          \<lparr>response = \<lparr>status = 200, body = enrichedVideos\<rparr>,
           outbound = calls,
           console = []\<rparr>
      | (Inl err, calls) \<Rightarrow>
          \<lparr>response = failure_response,
           outbound = calls,
           console = [(''Error fetching videos:'', err)]\<rparr>)"

text \<open>
  What \<open>res.json\<close> writes is \<open>JSON.stringify\<close> of the value it is given.
  \<open>json_stringify v\<close> is the JSON value which that text denotes, \<open>None\<close> when there
  is no text (for \<open>undefined\<close>). An object keeps, in order, the properties whose value
  has a text, so a property that is \<open>undefined\<close> is left out; an array writes
  \<open>null\<close> for an element that has none.
\<close>

fun json_stringify :: "jsval \<Rightarrow> jsval option" where
  "json_stringify JUndefined = None"
| "json_stringify JNull = Some JNull"
| "json_stringify (JBool b) = Some (JBool b)"
| "json_stringify (JNum n) = Some (JNum n)"
| "json_stringify (JStr s) = Some (JStr s)"
| "json_stringify (JArr xs) =
     Some (JArr (map (\<lambda>x. case json_stringify x of None \<Rightarrow> JNull | Some v \<Rightarrow> v) xs))"
| "json_stringify (JObj kvs) =
     Some (JObj (concat (map (\<lambda>kv. case json_stringify (snd kv) of
                                      None \<Rightarrow> []
                                    | Some v \<Rightarrow> [(fst kv, v)]) kvs)))"

text \<open>The property \<open>k: v\<close> as it is written: nothing, or the one property.\<close>

definition json_field :: "string \<Rightarrow> jsval \<Rightarrow> (string \<times> jsval) list" where
  "json_field k v = (case json_stringify v of None \<Rightarrow> [] | Some w \<Rightarrow> [(k, w)])"



text \<open>
  Reading along a path of keys, \<open>v.k1.k2...\<close>: used to say where a field of an
  answer comes from.
\<close>

fun get_path :: "jsval \<Rightarrow> string list \<Rightarrow> js_error + jsval" where
  "get_path v [] = Inr v"
| "get_path v (k # ks) = bindE (get_prop v k) (\<lambda>w. get_path w ks)"

text \<open>
  The number of outbound calls the specification asks for: the ceiling of
  \<open>n / maxBatchSize\<close>. The handler has no such constant; this is the specification's
  formula, to compare the handler with.
\<close>

definition spec_outbound_calls :: "nat \<Rightarrow> nat \<Rightarrow> nat" where
  "spec_outbound_calls n maxBatchSize = (n + maxBatchSize - 1) div maxBatchSize"

subsection \<open>Example environments\<close>

text \<open>An item as the metadata API sends it, reduced to the parts requested.\<close>

definition youtube_item :: "string \<Rightarrow> jsval \<Rightarrow> string \<Rightarrow> string \<Rightarrow> string \<Rightarrow> jsval" where
  "youtube_item i t c u d =
     JObj [(''kind'', JStr ''youtube#video''),
           (''id'', JStr i),
           (''snippet'',
              JObj [(''title'', t),
                    (''channelTitle'', JStr c),
                    (''thumbnails'', JObj [(''high'', JObj [(''url'', JStr u)])])]),
           (''contentDetails'', JObj [(''duration'', JStr d)])]"

text \<open>An API that answers one URL with the given items and rejects every other.\<close>

definition answers :: "string \<Rightarrow> jsval list \<Rightarrow> string \<Rightarrow> js_error + jsval" where
  "answers expected items url =
     (if url = expected then Inr (JObj [(''kind'', JStr ''youtube#videoListResponse''),
                                        (''items'', JArr items)])
      else Inl (AxiosError ''Request failed with status code 404''))"

definition base_url :: string where
  "base_url = ''https://www.googleapis.com/youtube/v3/videos?part=snippet,contentDetails&id=''"

text \<open>No document in the catalog; the API rejects the request without ids.\<close>

definition empty_catalog_rejected :: env where
  "empty_catalog_rejected =
     \<lparr>db = Some (Inr []), youtubeApiKey = Some ''KEY'',
      axios_get = (\<lambda>url. Inl (AxiosError ''Request failed with status code 400''))\<rparr>"

text \<open>No document in the catalog; the API answers the request with no items.\<close>

definition empty_catalog_accepted :: env where
  "empty_catalog_accepted =
     \<lparr>db = Some (Inr []), youtubeApiKey = Some ''KEY'',
      axios_get = answers (base_url @ ''&key=KEY'') []\<rparr>"

text \<open>Two ids in the catalog, of which the API resolves the first only.\<close>

definition two_ids_one_resolved :: env where
  "two_ids_one_resolved =
     \<lparr>db = Some (Inr [\<lparr>doc_videoId = ''v1''\<rparr>, \<lparr>doc_videoId = ''v2''\<rparr>]),
      youtubeApiKey = Some ''KEY'',
      axios_get = answers (base_url @ ''v1,v2&key=KEY'')
        [youtube_item ''v1'' (JStr ''First'') ''Channel'' ''https://i.ytimg.com/vi/v1/hq.jpg'' ''PT1M'']\<rparr>"

text \<open>One id in the catalog; the API answers with an item of another id.\<close>

definition foreign_item_returned :: env where
  "foreign_item_returned =
     \<lparr>db = Some (Inr [\<lparr>doc_videoId = ''v1''\<rparr>]),
      youtubeApiKey = Some ''KEY'',
      axios_get = answers (base_url @ ''v1&key=KEY'')
        [youtube_item ''zz'' (JStr ''Other'') ''Channel'' ''https://i.ytimg.com/vi/zz/hq.jpg'' ''PT2M'']\<rparr>"



text \<open>
  Three ids in the catalog; the API answers the one request with four items (the
  second id twice over).
\<close>

definition three_ids_four_items :: env where
  "three_ids_four_items =
     \<lparr>db = Some (Inr [\<lparr>doc_videoId = ''a''\<rparr>, \<lparr>doc_videoId = ''b''\<rparr>, \<lparr>doc_videoId = ''c''\<rparr>]),
      youtubeApiKey = Some ''KEY'',
      axios_get = answers (base_url @ ''a,b,c&key=KEY'')
        [youtube_item ''a'' (JStr ''A'') ''Ch'' ''ua'' ''PT1M'',
         youtube_item ''b'' (JStr ''B'') ''Ch'' ''ub'' ''PT1M'',
         youtube_item ''b'' (JStr ''B'') ''Ch'' ''ub'' ''PT1M'',
         youtube_item ''c'' (JStr ''C'') ''Ch'' ''uc'' ''PT1M'']\<rparr>"

text \<open>The store connection was never established.\<close>

definition store_never_connected :: env where
  "store_never_connected =
     \<lparr>db = None, youtubeApiKey = Some ''SECRET'',
      axios_get = (\<lambda>url. Inr (JObj [(''items'', JArr [])]))\<rparr>"

text \<open>The store is connected; the query of the collection is rejected.\<close>

definition store_query_fails :: env where
  "store_query_fails =
     \<lparr>db = Some (Inl (StoreError ''connection timed out'')), youtubeApiKey = Some ''SECRET'',
      axios_get = (\<lambda>url. Inr (JObj [(''items'', JArr [])]))\<rparr>"

text \<open>The catalog is read; the API rejects the request, its error naming the URL.\<close>

definition upstream_rejects :: env where
  "upstream_rejects =
     \<lparr>db = Some (Inr [\<lparr>doc_videoId = ''v1''\<rparr>]),
      youtubeApiKey = Some ''SECRET'',
      axios_get = (\<lambda>url. Inl (AxiosError (''403 for '' @ url)))\<rparr>"

section \<open>The client: \<open>App\<close>\<close>

record video =
  videoId :: string
  title :: string
  channelTitle :: string
  thumbnail :: string

text \<open>
  The component's seven state variables, and the effects of its handlers that leave the
  component: the alerts shown and the lines written to the console, oldest first.
\<close>

record app =
  isSplashVisible :: bool
  videos :: "video list"
  selectedVideo :: "video option"
  isLoading :: bool
  error :: "string option"
  infoModalVisible :: bool
  refreshing :: bool
  alerts :: "(string \<times> string) list"
  consoleErrors :: "string list"

text \<open>The initial values given to \<open>useState\<close>.\<close>

definition initial :: app where
  "initial =
     \<lparr>isSplashVisible = True, videos = [], selectedVideo = None, isLoading = True,
      error = None, infoModalVisible = False, refreshing = False,
      alerts = [], consoleErrors = []\<rparr>"

text \<open>
  How the request of \<open>fetchVideos\<close> ends: \<open>fetch\<close> rejects, or there is a response
  with its \<open>ok\<close> flag and the outcome of \<open>response.json()\<close> (\<open>None\<close> when that
  rejects).
\<close>

datatype fetch_result =
    FetchRejected
  | Responded bool "video list option"

text \<open>
  The \<open>catch\<close> block of \<open>fetchVideos\<close>; the string stands for the error caught,
  which goes to the console.
\<close>

definition fetch_failed :: "string \<Rightarrow> app \<Rightarrow> app" where
  "fetch_failed e s =
     s\<lparr>error := Some ''Failed to fetch videos. Pull down to retry.'',
       consoleErrors := consoleErrors s @ [e]\<rparr>"

text \<open>
  \<open>fetchVideos\<close> from the point where its request has ended: everything after the
  last \<open>await\<close> runs without interruption, so it is one step on the state. The
  \<open>finally\<close> block runs after either branch.
\<close>

definition fetchVideos :: "fetch_result \<Rightarrow> app \<Rightarrow> app" where
  "fetchVideos r s =
     (let s' =
        (case r of
           FetchRejected \<Rightarrow> fetch_failed ''fetch rejected'' s
         | Responded ok parsed \<Rightarrow>
             if \<not> ok then fetch_failed ''Network response was not ok'' s
             else (case parsed of
                     None \<Rightarrow> fetch_failed ''json rejected'' s
                   | Some data \<Rightarrow> s\<lparr>videos := data, error := None\<rparr>))
      in s'\<lparr>isLoading := False, refreshing := False\<rparr>)"

text \<open>
  \<open>onRefresh\<close>: sets the flag and starts \<open>fetchVideos\<close>, whose end is a later
  event.
\<close>

definition onRefresh :: "app \<Rightarrow> app" where
  "onRefresh s = s\<lparr>refreshing := True\<rparr>"

definition closePlayer :: "app \<Rightarrow> app" where
  "closePlayer s = s\<lparr>selectedVideo := None\<rparr>"

definition onPlayerStateChange :: "string \<Rightarrow> app \<Rightarrow> app" where
  "onPlayerStateChange state s = (if state = ''ended'' then closePlayer s else s)"

definition onPlayerError :: "string \<Rightarrow> app \<Rightarrow> app" where
  "onPlayerError err s =
     closePlayer
       (s\<lparr>consoleErrors := consoleErrors s @ [''YouTube Player Error:'' @ err],
          alerts := alerts s @
            [(''Playback Error'',
              ''This video cannot be played. It may be restricted by the owner.'')]\<rparr>)"

text \<open>
  Everything that can happen to the mounted component: a request of \<open>fetchVideos\<close>
  ends, the splash timer fires, the user pulls the list down, presses a list item,
  presses the player's close button or the system's back button, the embedded player
  reports a state or an error, the info dialog is opened or closed.
\<close>

datatype event =
    FetchSettled fetch_result
  | SplashTimeout
  | PullToRefresh
  | PressItem video
  | PressClose
  | RequestClose
  | PlayerStateChange string
  | PlayerError string
  | PressInfo
  | CloseInfo

fun step :: "app \<Rightarrow> event \<Rightarrow> app" where
  "step s (FetchSettled r) = fetchVideos r s"
| "step s SplashTimeout = s\<lparr>isSplashVisible := False\<rparr>"
| "step s PullToRefresh = onRefresh s"
| "step s (PressItem item) = s\<lparr>selectedVideo := Some item\<rparr>"
| "step s PressClose = closePlayer s"
| "step s RequestClose = closePlayer s"
| "step s (PlayerStateChange state) = onPlayerStateChange state s"
| "step s (PlayerError err) = onPlayerError err s"
| "step s PressInfo = s\<lparr>infoModalVisible := True\<rparr>"
| "step s CloseInfo = s\<lparr>infoModalVisible := False\<rparr>"

definition run :: "app \<Rightarrow> event list \<Rightarrow> app" where
  "run s es = foldl step s es"

text \<open>
  What \<open>App\<close> renders. The content area is the skeleton list, the error text or the
  list of videos with its refresh control; \<open>error && videos.length === 0\<close> holds for
  a non-empty error string and an empty list. The player overlay is rendered for a
  selected video.
\<close>

datatype content =
    Skeleton
  | ErrorText string
  | VideoList "video list" bool

datatype screen =
    Splash
  | MainScreen content "video option" bool

definition content_area :: "app \<Rightarrow> content" where
  "content_area s =
     (if isLoading s then Skeleton
      else (case error s of
              None \<Rightarrow> VideoList (videos s) (refreshing s)
            | Some msg \<Rightarrow>
                if msg \<noteq> [] \<and> videos s = [] then ErrorText msg
                else VideoList (videos s) (refreshing s)))"

definition render :: "app \<Rightarrow> screen" where
  "render s =
     (if isSplashVisible s then Splash
      else MainScreen (content_area s) (selectedVideo s) (infoModalVisible s))"

fun is_settled :: "event \<Rightarrow> bool" where
  "is_settled (FetchSettled r) = True"
| "is_settled e = False"

text \<open>
  The states of the specification's loader, read off the component's variables: the
  specification's names for the combinations of \<open>isLoading\<close>, \<open>refreshing\<close> and
  \<open>error\<close>.
\<close>

datatype loader_phase = Loading | Refreshing | Loaded | Failed

definition spec_phase :: "app \<Rightarrow> loader_phase" where
  "spec_phase s =
     (if isLoading s then Loading
      else if refreshing s then Refreshing
      else (case error s of None \<Rightarrow> Loaded | Some msg \<Rightarrow> Failed))"

text \<open>
  The outcomes on which \<open>fetchVideos\<close> reaches its \<open>catch\<close> block: \<open>fetch\<close>
  rejects, the response is not \<open>ok\<close>, or \<open>response.json()\<close> rejects.
\<close>

fun fetch_fails :: "fetch_result \<Rightarrow> bool" where
  "fetch_fails FetchRejected = True"
| "fetch_fails (Responded ok parsed) = (\<not> ok \<or> parsed = None)"

fun is_press_item :: "event \<Rightarrow> bool" where
  "is_press_item (PressItem item) = True"
| "is_press_item e = False"

text \<open>The video of the player overlay on a screen, if the overlay is there.\<close>

fun player_of :: "screen \<Rightarrow> video option" where
  "player_of Splash = None"
| "player_of (MainScreen c p i) = p"

subsection \<open>Example states\<close>

definition video_A :: video where
  "video_A = \<lparr>videoId = ''a1'', title = ''A'', channelTitle = ''Ch'', thumbnail = ''ta''\<rparr>"

definition video_B :: video where
  "video_B = \<lparr>videoId = ''b2'', title = ''B'', channelTitle = ''Ch'', thumbnail = ''tb''\<rparr>"

text \<open>The list is loaded and the first video is playing in the overlay.\<close>

definition playing_A :: app where
  "playing_A =
     \<lparr>isSplashVisible = False, videos = [video_A, video_B], selectedVideo = Some video_A,
      isLoading = False, error = None, infoModalVisible = False, refreshing = False,
      alerts = [], consoleErrors = []\<rparr>"

section \<open>Facts about the server\<close>

lemma bindE_Inr_iff: "bindE m f = Inr y \<longleftrightarrow> (\<exists>v. m = Inr v \<and> f v = Inr y)"
  by (cases m) (simp_all add: bindE_def)

lemma mapE_Inr_iff: "mapE f xs = Inr ys \<longleftrightarrow> list_all2 (\<lambda>x y. f x = Inr y) xs ys"
proof (induction xs arbitrary: ys)
  case Nil
  show ?case by auto
next
  case (Cons x xs)
  show ?case
    by (cases ys) (auto simp: bindE_Inr_iff Cons.IH)
qed

lemma format_item_Inr_iff:
  "format_item item = Inr out \<longleftrightarrow>
     (\<exists>a b c d f.
        get_path item [''id''] = Inr a \<and>
        get_path item [''snippet'', ''title''] = Inr b \<and>
        get_path item [''snippet'', ''channelTitle''] = Inr c \<and>
        get_path item [''snippet'', ''thumbnails'', ''high'', ''url''] = Inr d \<and>
        get_path item [''contentDetails'', ''duration''] = Inr f \<and>
        out = JObj [(''videoId'', a), (''title'', b), (''channelTitle'', c),
                    (''thumbnail'', d), (''duration'', f)])"
  unfolding format_item_def by (auto simp: bindE_Inr_iff)

lemma format_item_videoId:
  "format_item item = Inr out \<Longrightarrow> get_prop out ''videoId'' = get_prop item ''id''"
  by (auto simp: format_item_Inr_iff bindE_Inr_iff)

lemma array_map_Inr_iff:
  "array_map f v = Inr ys \<longleftrightarrow> (\<exists>xs. v = JArr xs \<and> mapE f xs = Inr ys)"
  by (cases v) simp_all

lemma try_block_Inr_iff:
  "try_block e = (Inr v, calls) \<longleftrightarrow>
     (\<exists>docs data items outs.
        db e = Some (Inr docs) \<and>
        axios_get e (youtubeApiUrl (videoIds docs) (youtubeApiKey e)) = Inr data \<and>
        get_prop data ''items'' = Inr (JArr items) \<and>
        mapE format_item items = Inr outs \<and>
        v = JArr outs \<and>
        calls = [youtubeApiUrl (videoIds docs) (youtubeApiKey e)])"
  unfolding try_block_def
  by (auto simp: bindE_Inr_iff array_map_Inr_iff Let_def split: option.splits sum.splits)

lemma get_videos_caught:
  "try_block e = (Inl err, calls) \<Longrightarrow>
   get_videos e = \<lparr>response = failure_response, outbound = calls,
                   console = [(''Error fetching videos:'', err)]\<rparr>"
  unfolding get_videos_def by simp

lemma response_cases:
  "response (get_videos e) = failure_response \<or>
   (\<exists>v. response (get_videos e) = \<lparr>status = 200, body = v\<rparr>)"
  unfolding get_videos_def by (simp split: prod.splits sum.splits)

lemma response_200_iff:
  "response (get_videos e) = \<lparr>status = 200, body = b\<rparr> \<longleftrightarrow> (\<exists>calls. try_block e = (Inr b, calls))"
  unfolding get_videos_def by (auto simp: failure_response_def split: prod.splits sum.splits)

lemma success_unfolded:
  assumes "response (get_videos e) = \<lparr>status = 200, body = b\<rparr>"
  shows "\<exists>docs data items outs.
           db e = Some (Inr docs) \<and>
           axios_get e (youtubeApiUrl (videoIds docs) (youtubeApiKey e)) = Inr data \<and>
           get_prop data ''items'' = Inr (JArr items) \<and>
           b = JArr outs \<and>
           list_all2 (\<lambda>item out. format_item item = Inr out) items outs"
  using assms by (auto simp: response_200_iff try_block_Inr_iff mapE_Inr_iff)

lemma try_block_store_unset: "db e = None \<Longrightarrow> try_block e = (Inl (TypeError ''collection''), [])"
  unfolding try_block_def by simp

lemma try_block_store_rejects: "db e = Some (Inl err) \<Longrightarrow> try_block e = (Inl err, [])"
  unfolding try_block_def by simp

lemma try_block_upstream_rejects:
  "db e = Some (Inr docs) \<Longrightarrow>
   axios_get e (youtubeApiUrl (videoIds docs) (youtubeApiKey e)) = Inl err \<Longrightarrow>
   try_block e = (Inl err, [youtubeApiUrl (videoIds docs) (youtubeApiKey e)])"
  unfolding try_block_def by (simp add: Let_def)

lemma outbound_after_read:
  "db e = Some (Inr docs) \<Longrightarrow>
   outbound (get_videos e) = [youtubeApiUrl (videoIds docs) (youtubeApiKey e)]"
  unfolding get_videos_def try_block_def
  by (simp add: Let_def split: sum.splits prod.splits)

text \<open>Evaluation of the example environments.\<close>

lemma youtube_item_formatted:
  "format_item (youtube_item i t c u d) =
     Inr (JObj [(''videoId'', JStr i), (''title'', t), (''channelTitle'', JStr c),
                (''thumbnail'', JStr u), (''duration'', JStr d)])"
  by (simp add: format_item_def youtube_item_def bindE_def)

lemma two_ids_one_resolved_run:
  "get_videos two_ids_one_resolved =
     \<lparr>response = \<lparr>status = 200, body = JArr
        [JObj [(''videoId'', JStr ''v1''), (''title'', JStr ''First''),
               (''channelTitle'', JStr ''Channel''),
               (''thumbnail'', JStr ''https://i.ytimg.com/vi/v1/hq.jpg''),
               (''duration'', JStr ''PT1M'')]]\<rparr>,
      outbound = [''https://www.googleapis.com/youtube/v3/videos?part=snippet,contentDetails&id=v1,v2&key=KEY''],
      console = []\<rparr>"
  by (simp add: get_videos_def try_block_def two_ids_one_resolved_def videoIds_def
      youtubeApiUrl_def answers_def base_url_def bindE_def youtube_item_formatted)

lemma three_ids_four_items_run:
  "get_videos three_ids_four_items =
     \<lparr>response = \<lparr>status = 200, body = JArr
        [JObj [(''videoId'', JStr ''a''), (''title'', JStr ''A''), (''channelTitle'', JStr ''Ch''),
               (''thumbnail'', JStr ''ua''), (''duration'', JStr ''PT1M'')],
         JObj [(''videoId'', JStr ''b''), (''title'', JStr ''B''), (''channelTitle'', JStr ''Ch''),
               (''thumbnail'', JStr ''ub''), (''duration'', JStr ''PT1M'')],
         JObj [(''videoId'', JStr ''b''), (''title'', JStr ''B''), (''channelTitle'', JStr ''Ch''),
               (''thumbnail'', JStr ''ub''), (''duration'', JStr ''PT1M'')],
         JObj [(''videoId'', JStr ''c''), (''title'', JStr ''C''), (''channelTitle'', JStr ''Ch''),
               (''thumbnail'', JStr ''uc''), (''duration'', JStr ''PT1M'')]]\<rparr>,
      outbound = [''https://www.googleapis.com/youtube/v3/videos?part=snippet,contentDetails&id=a,b,c&key=KEY''],
      console = []\<rparr>"
  by (simp add: get_videos_def try_block_def three_ids_four_items_def videoIds_def
      youtubeApiUrl_def answers_def base_url_def bindE_def youtube_item_formatted)

lemma ceiling_is_one:
  assumes "0 < m"
  shows "spec_outbound_calls n m = 1 \<longleftrightarrow> 1 \<le> n \<and> n \<le> m"
proof -
  let ?k = "n + m - 1"
  have "?k div m = 1 \<longleftrightarrow> 1 \<le> ?k div m \<and> ?k div m < 2"
    by auto
  also have "\<dots> \<longleftrightarrow> 1 * m \<le> ?k \<and> ?k < 2 * m"
    using assms by (simp only: less_eq_div_iff_mult_less_eq div_less_iff_less_mult)
  also have "\<dots> \<longleftrightarrow> 1 \<le> n \<and> n \<le> m"
    using assms by auto
  finally show ?thesis
    unfolding spec_outbound_calls_def .
qed

lemma success_positions:
  assumes "response (get_videos e) = \<lparr>status = 200, body = b\<rparr>"
  shows "\<exists>docs data items outs.
           db e = Some (Inr docs) \<and>
           axios_get e (youtubeApiUrl (videoIds docs) (youtubeApiKey e)) = Inr data \<and>
           get_prop data ''items'' = Inr (JArr items) \<and>
           b = JArr outs \<and>
           length outs = length items \<and>
           (\<forall>i<length items. format_item (items ! i) = Inr (outs ! i))"
  using success_unfolded [OF assms] by (fastforce simp: list_all2_conv_all_nth)



lemma json_field_undefined: "json_field k JUndefined = []"
  by (simp add: json_field_def)











section \<open>Facts about the client\<close>

lemma run_Nil: "run s [] = s"
  by (simp add: run_def)

lemma run_Cons: "run s (e # es) = run (step s e) es"
  by (simp add: run_def)

lemma fetchVideos_fails:
  "fetch_fails r \<Longrightarrow>
   \<exists>cause. fetchVideos r s =
     s\<lparr>error := Some ''Failed to fetch videos. Pull down to retry.'',
       consoleErrors := consoleErrors s @ [cause],
       isLoading := False, refreshing := False\<rparr>"
  by (cases r) (auto simp: fetchVideos_def fetch_failed_def split: option.splits)

lemma fetchVideos_succeeds:
  "fetchVideos (Responded True (Some data)) s =
     s\<lparr>videos := data, error := None, isLoading := False, refreshing := False\<rparr>"
  by (simp add: fetchVideos_def)

lemma fetchVideos_flags:
  "\<not> isLoading (fetchVideos r s) \<and> \<not> refreshing (fetchVideos r s)"
  by (simp add: fetchVideos_def Let_def)

lemma step_unsettled:
  "\<not> is_settled e \<Longrightarrow>
   isLoading (step s e) = isLoading s \<and> error (step s e) = error s \<and>
   videos (step s e) = videos s \<and> (refreshing s \<longrightarrow> refreshing (step s e))"
  by (cases e)
    (simp_all add: onRefresh_def closePlayer_def onPlayerStateChange_def onPlayerError_def)

lemma run_unsettled:
  "\<forall>e\<in>set es. \<not> is_settled e \<Longrightarrow>
   isLoading (run s es) = isLoading s \<and> error (run s es) = error s \<and>
   videos (run s es) = videos s \<and> (refreshing s \<longrightarrow> refreshing (run s es))"
proof (induction es arbitrary: s)
  case Nil
  show ?case by (simp add: run_Nil)
next
  case (Cons e es)
  from Cons.prems have e: "\<not> is_settled e" and es: "\<forall>e\<in>set es. \<not> is_settled e"
    by simp_all
  from Cons.IH [OF es, of "step s e"] step_unsettled [OF e, of s]
  show ?case by (simp add: run_Cons)
qed

lemma step_not_loading: "\<not> isLoading s \<Longrightarrow> \<not> isLoading (step s e)"
  by (cases e)
    (simp_all add: fetchVideos_flags onRefresh_def closePlayer_def onPlayerStateChange_def
      onPlayerError_def)

lemma run_not_loading: "\<not> isLoading s \<Longrightarrow> \<not> isLoading (run s es)"
  by (induction es arbitrary: s) (simp_all add: run_Nil run_Cons step_not_loading)

lemma run_isLoading_iff:
  "isLoading (run s es) \<longleftrightarrow> isLoading s \<and> (\<forall>e\<in>set es. \<not> is_settled e)"
proof (induction es arbitrary: s)
  case Nil
  show ?case by (simp add: run_Nil)
next
  case (Cons e es)
  show ?case
  proof (cases "is_settled e")
    case True
    then obtain r where "e = FetchSettled r" by (cases e) simp_all
    then have "\<not> isLoading (step s e)" by (simp add: fetchVideos_flags)
    then have "\<not> isLoading (run (step s e) es)" by (rule run_not_loading)
    with True show ?thesis by (simp add: run_Cons)
  next
    case False
    with step_unsettled [OF False, of s] Cons.IH [of "step s e"]
    show ?thesis by (simp add: run_Cons)
  qed
qed

lemma content_area_Skeleton_iff: "content_area s = Skeleton \<longleftrightarrow> isLoading s"
  by (simp add: content_area_def split: option.splits)

lemma step_stays_closed:
  "\<not> is_press_item e \<Longrightarrow> selectedVideo s = None \<Longrightarrow> selectedVideo (step s e) = None"
  by (cases e)
    (simp_all add: fetchVideos_def fetch_failed_def Let_def onRefresh_def closePlayer_def
      onPlayerStateChange_def onPlayerError_def split: fetch_result.splits option.splits)

lemma run_stays_closed:
  "\<forall>e\<in>set es. \<not> is_press_item e \<Longrightarrow> selectedVideo s = None \<Longrightarrow>
   selectedVideo (run s es) = None"
  by (induction es arbitrary: s) (simp_all add: run_Nil run_Cons step_stays_closed)

lemma player_of_render: "player_of (render s) = (if isSplashVisible s then None else selectedVideo s)"
  by (simp add: render_def)

section \<open>The server's claims\<close>

text \<open>
  C1, as amended. The handler has no branch for an empty catalog: with no document in
  the collection it still sends exactly one request to the metadata API, with an empty
  \<open>id\<close> parameter. It answers 200 with an empty array exactly when that request
  succeeds and its \<open>items\<close> is an empty array; when the request is rejected it
  answers with the failure response.
\<close>

theorem empty_catalog_single_call:
  assumes "db e = Some (Inr [])"
  shows "outbound (get_videos e) = [youtubeApiUrl [] (youtubeApiKey e)] \<and>
         (response (get_videos e) = \<lparr>status = 200, body = JArr []\<rparr> \<longleftrightarrow>
            (\<exists>data. axios_get e (youtubeApiUrl [] (youtubeApiKey e)) = Inr data \<and>
                    get_prop data ''items'' = Inr (JArr []))) \<and>
         ((\<exists>err. axios_get e (youtubeApiUrl [] (youtubeApiKey e)) = Inl err) \<longrightarrow>
            response (get_videos e) = failure_response)"
proof (intro conjI)
  show "outbound (get_videos e) = [youtubeApiUrl [] (youtubeApiKey e)]"
    using outbound_after_read [OF assms] by (simp add: videoIds_def)
next
  show "response (get_videos e) = \<lparr>status = 200, body = JArr []\<rparr> \<longleftrightarrow>
          (\<exists>data. axios_get e (youtubeApiUrl [] (youtubeApiKey e)) = Inr data \<and>
                  get_prop data ''items'' = Inr (JArr []))"
    using assms by (auto simp: response_200_iff try_block_Inr_iff mapE_Inr_iff videoIds_def)
next
  show "(\<exists>err. axios_get e (youtubeApiUrl [] (youtubeApiKey e)) = Inl err) \<longrightarrow>
          response (get_videos e) = failure_response"
  proof
    assume "\<exists>err. axios_get e (youtubeApiUrl [] (youtubeApiKey e)) = Inl err"
    then obtain err where "axios_get e (youtubeApiUrl [] (youtubeApiKey e)) = Inl err" ..
    with assms have "try_block e = (Inl err, [youtubeApiUrl [] (youtubeApiKey e)])"
      using try_block_upstream_rejects [of e "[]" err] by (simp add: videoIds_def)
    from get_videos_caught [OF this] show "response (get_videos e) = failure_response"
      by simp
  qed
qed

theorem empty_catalog_single_call_witness:
  "db empty_catalog_accepted = Some (Inr []) \<and>
   outbound (get_videos empty_catalog_accepted) =
     [youtubeApiUrl [] (youtubeApiKey empty_catalog_accepted)] \<and>
   length (outbound (get_videos empty_catalog_accepted)) = 1 \<and>
   response (get_videos empty_catalog_accepted) = \<lparr>status = 200, body = JArr []\<rparr> \<and>
   db empty_catalog_rejected = Some (Inr []) \<and>
   length (outbound (get_videos empty_catalog_rejected)) = 1 \<and>
   response (get_videos empty_catalog_rejected) = failure_response"
proof -
  have h: "db empty_catalog_accepted = Some (Inr [])"
    by (simp add: empty_catalog_accepted_def)
  have a: "\<exists>data. axios_get empty_catalog_accepted
                     (youtubeApiUrl [] (youtubeApiKey empty_catalog_accepted)) = Inr data \<and>
                  get_prop data ''items'' = Inr (JArr [])"
    by (simp add: empty_catalog_accepted_def answers_def base_url_def youtubeApiUrl_def)
  have k: "db empty_catalog_rejected = Some (Inr [])"
    by (simp add: empty_catalog_rejected_def)
  have b: "\<exists>err. axios_get empty_catalog_rejected
                    (youtubeApiUrl [] (youtubeApiKey empty_catalog_rejected)) = Inl err"
    by (simp add: empty_catalog_rejected_def)
  from empty_catalog_single_call [OF h] empty_catalog_single_call [OF k] h k a b
  show ?thesis by simp
qed

theorem empty_catalog_counterexample:
  "db empty_catalog_rejected = Some (Inr []) \<and>
   outbound (get_videos empty_catalog_rejected) =
     [''https://www.googleapis.com/youtube/v3/videos?part=snippet,contentDetails&id=&key=KEY''] \<and>
   response (get_videos empty_catalog_rejected) =
     \<lparr>status = 500, body = JObj [(''message'', JStr ''Failed to fetch videos'')]\<rparr>"
  by (simp add: empty_catalog_rejected_def get_videos_def try_block_def youtubeApiUrl_def
      videoIds_def failure_response_def)

text \<open>
  C2, as amended. In a 200 answer the record at each position has as \<open>videoId\<close> the
  \<open>id\<close> of the API's item at that position. The handler does not compare the items
  with the ids it asked for: every returned \<open>videoId\<close> is one of the requested ids
  provided every item the API returned carries one of them.
\<close>

theorem videoId_mirrors_item_id:
  assumes "response (get_videos e) = \<lparr>status = 200, body = b\<rparr>"
  shows "\<exists>docs data items outs.
           db e = Some (Inr docs) \<and>
           axios_get e (youtubeApiUrl (videoIds docs) (youtubeApiKey e)) = Inr data \<and>
           get_prop data ''items'' = Inr (JArr items) \<and>
           b = JArr outs \<and>
           length outs = length items \<and>
           (\<forall>i<length items. get_prop (outs ! i) ''videoId'' = get_prop (items ! i) ''id'') \<and>
           ((\<forall>item\<in>set items. \<exists>d\<in>set docs. get_prop item ''id'' = Inr (JStr (doc_videoId d))) \<longrightarrow>
            (\<forall>out\<in>set outs. \<exists>d\<in>set docs. get_prop out ''videoId'' = Inr (JStr (doc_videoId d))))"
proof -
  from success_unfolded [OF assms] obtain docs data items outs where
    d: "db e = Some (Inr docs)" and
    a: "axios_get e (youtubeApiUrl (videoIds docs) (youtubeApiKey e)) = Inr data" and
    g: "get_prop data ''items'' = Inr (JArr items)" and
    b: "b = JArr outs" and
    l: "list_all2 (\<lambda>item out. format_item item = Inr out) items outs"
    by blast
  from l have len: "length outs = length items"
    by (simp add: list_all2_lengthD)
  from l have pos: "\<forall>i<length items. get_prop (outs ! i) ''videoId'' = get_prop (items ! i) ''id''"
    by (auto simp: list_all2_conv_all_nth format_item_videoId)
  have own: "(\<forall>item\<in>set items. \<exists>d\<in>set docs. get_prop item ''id'' = Inr (JStr (doc_videoId d))) \<longrightarrow>
            (\<forall>out\<in>set outs. \<exists>d\<in>set docs. get_prop out ''videoId'' = Inr (JStr (doc_videoId d)))"
  proof (intro impI ballI)
    fix out
    assume h: "\<forall>item\<in>set items. \<exists>d\<in>set docs. get_prop item ''id'' = Inr (JStr (doc_videoId d))"
      and o: "out \<in> set outs"
    from o obtain i where i: "i < length outs" "out = outs ! i"
      by (auto simp: in_set_conv_nth)
    with len have "items ! i \<in> set items" by simp
    with h obtain d where "d \<in> set docs" "get_prop (items ! i) ''id'' = Inr (JStr (doc_videoId d))"
      by blast
    with pos i len show "\<exists>d\<in>set docs. get_prop out ''videoId'' = Inr (JStr (doc_videoId d))"
      by auto
  qed
  from d a g b len pos own show ?thesis by blast
qed

theorem videoId_mirrors_item_id_witness:
  "response (get_videos two_ids_one_resolved) =
     \<lparr>status = 200, body = JArr
        [JObj [(''videoId'', JStr ''v1''), (''title'', JStr ''First''),
               (''channelTitle'', JStr ''Channel''),
               (''thumbnail'', JStr ''https://i.ytimg.com/vi/v1/hq.jpg''),
               (''duration'', JStr ''PT1M'')]]\<rparr> \<and>
   (\<exists>items outs.
      body (response (get_videos two_ids_one_resolved)) = JArr outs \<and>
      length outs = 1 \<and> length items = 1 \<and>
      get_prop (outs ! 0) ''videoId'' = get_prop (items ! 0) ''id'' \<and>
      (\<exists>d\<in>set [\<lparr>doc_videoId = ''v1''\<rparr>, \<lparr>doc_videoId = ''v2''\<rparr>].
         get_prop (outs ! 0) ''videoId'' = Inr (JStr (doc_videoId d))))"
proof -
  let ?o = "JObj [(''videoId'', JStr ''v1''), (''title'', JStr ''First''),
               (''channelTitle'', JStr ''Channel''),
               (''thumbnail'', JStr ''https://i.ytimg.com/vi/v1/hq.jpg''),
               (''duration'', JStr ''PT1M'')]"
  have h: "response (get_videos two_ids_one_resolved) = \<lparr>status = 200, body = JArr [?o]\<rparr>"
    by (simp add: two_ids_one_resolved_run)
  from videoId_mirrors_item_id [OF h] obtain docs data items outs where
    d: "db two_ids_one_resolved = Some (Inr docs)" and
    a: "axios_get two_ids_one_resolved
          (youtubeApiUrl (videoIds docs) (youtubeApiKey two_ids_one_resolved)) = Inr data" and
    g: "get_prop data ''items'' = Inr (JArr items)" and
    b: "JArr [?o] = JArr outs" and
    len: "length outs = length items" and
    pos: "\<forall>i<length items. get_prop (outs ! i) ''videoId'' = get_prop (items ! i) ''id''" and
    own: "(\<forall>item\<in>set items. \<exists>d\<in>set docs. get_prop item ''id'' = Inr (JStr (doc_videoId d))) \<longrightarrow>
          (\<forall>out\<in>set outs. \<exists>d\<in>set docs. get_prop out ''videoId'' = Inr (JStr (doc_videoId d)))"
    by blast
  from d have docs: "docs = [\<lparr>doc_videoId = ''v1''\<rparr>, \<lparr>doc_videoId = ''v2''\<rparr>]"
    by (simp add: two_ids_one_resolved_def)
  from a g have items: "items =
      [youtube_item ''v1'' (JStr ''First'') ''Channel'' ''https://i.ytimg.com/vi/v1/hq.jpg'' ''PT1M'']"
    unfolding docs
    by (auto simp: two_ids_one_resolved_def answers_def base_url_def videoIds_def youtubeApiUrl_def)
  have "\<forall>item\<in>set items. \<exists>d\<in>set docs. get_prop item ''id'' = Inr (JStr (doc_videoId d))"
    unfolding items docs by (simp add: youtube_item_def)
  with own have "\<forall>out\<in>set outs. \<exists>d\<in>set docs. get_prop out ''videoId'' = Inr (JStr (doc_videoId d))"
    by blast
  moreover from b have o: "outs = [?o]" by simp
  ultimately have 1: "\<exists>d\<in>set [\<lparr>doc_videoId = ''v1''\<rparr>, \<lparr>doc_videoId = ''v2''\<rparr>].
      get_prop (outs ! 0) ''videoId'' = Inr (JStr (doc_videoId d))"
    unfolding docs by simp
  from len o have 2: "length outs = 1" "length items = 1" by simp_all
  with pos have 3: "get_prop (outs ! 0) ''videoId'' = get_prop (items ! 0) ''id''"
    by simp
  from h o have 4: "body (response (get_videos two_ids_one_resolved)) = JArr outs"
    by simp
  from 1 2 3 4 have "\<exists>items outs.
      body (response (get_videos two_ids_one_resolved)) = JArr outs \<and>
      length outs = 1 \<and> length items = 1 \<and>
      get_prop (outs ! 0) ''videoId'' = get_prop (items ! 0) ''id'' \<and>
      (\<exists>d\<in>set [\<lparr>doc_videoId = ''v1''\<rparr>, \<lparr>doc_videoId = ''v2''\<rparr>].
         get_prop (outs ! 0) ''videoId'' = Inr (JStr (doc_videoId d)))"
    by blast
  with h show ?thesis by (intro conjI)
qed

theorem foreign_item_counterexample:
  "db foreign_item_returned = Some (Inr [\<lparr>doc_videoId = ''v1''\<rparr>]) \<and>
   response (get_videos foreign_item_returned) =
     \<lparr>status = 200, body = JArr
        [JObj [(''videoId'', JStr ''zz''), (''title'', JStr ''Other''),
               (''channelTitle'', JStr ''Channel''),
               (''thumbnail'', JStr ''https://i.ytimg.com/vi/zz/hq.jpg''),
               (''duration'', JStr ''PT2M'')]]\<rparr> \<and>
   ''zz'' \<notin> set (map doc_videoId [\<lparr>doc_videoId = ''v1''\<rparr>])"
  by (simp add: get_videos_def try_block_def foreign_item_returned_def videoIds_def
      youtubeApiUrl_def answers_def base_url_def bindE_def youtube_item_formatted)




text \<open>
  C4. When the connection was never established, when the query is rejected and when
  the API call is rejected, the answer is the one failure response, 500 with the fixed
  message: the same value whatever the error and whatever the API key. The error goes
  to the console only. Every answer that is not a 200 is this failure response.
\<close>

theorem failure_message_is_fixed:
  "(db e = None \<longrightarrow>
      get_videos e = \<lparr>response = failure_response, outbound = [],
                      console = [(''Error fetching videos:'', TypeError ''collection'')]\<rparr>) \<and>
   (\<forall>err. db e = Some (Inl err) \<longrightarrow>
      get_videos e = \<lparr>response = failure_response, outbound = [],
                      console = [(''Error fetching videos:'', err)]\<rparr>) \<and>
   (\<forall>docs err. db e = Some (Inr docs) \<and>
        axios_get e (youtubeApiUrl (videoIds docs) (youtubeApiKey e)) = Inl err \<longrightarrow>
      get_videos e = \<lparr>response = failure_response,
                      outbound = [youtubeApiUrl (videoIds docs) (youtubeApiKey e)],
                      console = [(''Error fetching videos:'', err)]\<rparr>) \<and>
   (status (response (get_videos e)) \<noteq> 200 \<longrightarrow> response (get_videos e) = failure_response) \<and>
   failure_response = \<lparr>status = 500, body = JObj [(''message'', JStr ''Failed to fetch videos'')]\<rparr>"
proof (intro conjI impI allI)
  assume "db e = None"
  from get_videos_caught [OF try_block_store_unset [OF this]]
  show "get_videos e = \<lparr>response = failure_response, outbound = [],
                      console = [(''Error fetching videos:'', TypeError ''collection'')]\<rparr>" .
next
  fix err
  assume "db e = Some (Inl err)"
  from get_videos_caught [OF try_block_store_rejects [OF this]]
  show "get_videos e = \<lparr>response = failure_response, outbound = [],
                      console = [(''Error fetching videos:'', err)]\<rparr>" .
next
  fix docs err
  assume "db e = Some (Inr docs) \<and>
        axios_get e (youtubeApiUrl (videoIds docs) (youtubeApiKey e)) = Inl err"
  then have "try_block e = (Inl err, [youtubeApiUrl (videoIds docs) (youtubeApiKey e)])"
    by (simp add: try_block_upstream_rejects)
  from get_videos_caught [OF this]
  show "get_videos e = \<lparr>response = failure_response,
                      outbound = [youtubeApiUrl (videoIds docs) (youtubeApiKey e)],
                      console = [(''Error fetching videos:'', err)]\<rparr>" .
next
  assume "status (response (get_videos e)) \<noteq> 200"
  with response_cases [of e] show "response (get_videos e) = failure_response"
    by auto
next
  show "failure_response = \<lparr>status = 500, body = JObj [(''message'', JStr ''Failed to fetch videos'')]\<rparr>"
    by (simp add: failure_response_def)
qed

theorem failure_message_is_fixed_witness:
  "db store_never_connected = None \<and>
   response (get_videos store_never_connected) =
     \<lparr>status = 500, body = JObj [(''message'', JStr ''Failed to fetch videos'')]\<rparr> \<and>
   db store_query_fails = Some (Inl (StoreError ''connection timed out'')) \<and>
   get_videos store_query_fails =
     \<lparr>response = \<lparr>status = 500, body = JObj [(''message'', JStr ''Failed to fetch videos'')]\<rparr>,
      outbound = [],
      console = [(''Error fetching videos:'', StoreError ''connection timed out'')]\<rparr> \<and>
   get_videos upstream_rejects =
     \<lparr>response = \<lparr>status = 500, body = JObj [(''message'', JStr ''Failed to fetch videos'')]\<rparr>,
      outbound = [''https://www.googleapis.com/youtube/v3/videos?part=snippet,contentDetails&id=v1&key=SECRET''],
      console = [(''Error fetching videos:'',
        AxiosError ''403 for https://www.googleapis.com/youtube/v3/videos?part=snippet,contentDetails&id=v1&key=SECRET'')]\<rparr> \<and>
   status (response (get_videos upstream_rejects)) \<noteq> 200"
proof -
  have n: "db store_never_connected = None"
    by (simp add: store_never_connected_def)
  have q: "db store_query_fails = Some (Inl (StoreError ''connection timed out''))"
    by (simp add: store_query_fails_def)
  have u: "db upstream_rejects = Some (Inr [\<lparr>doc_videoId = ''v1''\<rparr>]) \<and>
      axios_get upstream_rejects
        (youtubeApiUrl (videoIds [\<lparr>doc_videoId = ''v1''\<rparr>]) (youtubeApiKey upstream_rejects)) =
      Inl (AxiosError ''403 for https://www.googleapis.com/youtube/v3/videos?part=snippet,contentDetails&id=v1&key=SECRET'')"
    by (simp add: upstream_rejects_def videoIds_def youtubeApiUrl_def)
  have k: "youtubeApiUrl (videoIds [\<lparr>doc_videoId = ''v1''\<rparr>]) (youtubeApiKey upstream_rejects) =
      ''https://www.googleapis.com/youtube/v3/videos?part=snippet,contentDetails&id=v1&key=SECRET''"
    by (simp add: upstream_rejects_def videoIds_def youtubeApiUrl_def)
  have f: "failure_response =
      \<lparr>status = 500, body = JObj [(''message'', JStr ''Failed to fetch videos'')]\<rparr>"
    using failure_message_is_fixed [of store_never_connected] by blast
  have 1: "get_videos store_never_connected = \<lparr>response = failure_response, outbound = [],
                      console = [(''Error fetching videos:'', TypeError ''collection'')]\<rparr>"
    using failure_message_is_fixed [of store_never_connected] n by blast
  have 2: "get_videos store_query_fails = \<lparr>response = failure_response, outbound = [],
      console = [(''Error fetching videos:'', StoreError ''connection timed out'')]\<rparr>"
    using failure_message_is_fixed [of store_query_fails] q by blast
  have 3: "get_videos upstream_rejects = \<lparr>response = failure_response,
      outbound = [youtubeApiUrl (videoIds [\<lparr>doc_videoId = ''v1''\<rparr>]) (youtubeApiKey upstream_rejects)],
      console = [(''Error fetching videos:'',
        AxiosError ''403 for https://www.googleapis.com/youtube/v3/videos?part=snippet,contentDetails&id=v1&key=SECRET'')]\<rparr>"
    using failure_message_is_fixed [of upstream_rejects] u by blast
  from n q 1 2 3 show ?thesis
    unfolding k f by simp
qed

text \<open>
  C6, as amended. There is no batch size in the handler. Whatever the number of
  documents read, it sends exactly one request, with all ids joined by commas; that
  is the specification's \<open>\<lceil>N / maxBatchSize\<rceil>\<close> exactly when
  \<open>1 \<le> N \<le> maxBatchSize\<close>. A 200 answer has one record per item of the API's
  answer, none added: at most \<open>N\<close> records whenever the API returned at most
  \<open>N\<close> items.
\<close>

theorem one_call_for_every_catalog:
  assumes "db e = Some (Inr docs)"
  shows "outbound (get_videos e) = [youtubeApiUrl (join '','' (map doc_videoId docs)) (youtubeApiKey e)] \<and>
         (0 < maxBatchSize \<longrightarrow>
            (length (outbound (get_videos e)) = spec_outbound_calls (length docs) maxBatchSize
               \<longleftrightarrow> 1 \<le> length docs \<and> length docs \<le> maxBatchSize)) \<and>
         (\<forall>b. response (get_videos e) = \<lparr>status = 200, body = b\<rparr> \<longrightarrow>
            (\<exists>data items outs.
               axios_get e (youtubeApiUrl (join '','' (map doc_videoId docs)) (youtubeApiKey e)) = Inr data \<and>
               get_prop data ''items'' = Inr (JArr items) \<and>
               b = JArr outs \<and>
               length outs = length items \<and>
               (length items \<le> length docs \<longrightarrow> length outs \<le> length docs)))"
proof (intro conjI impI allI)
  show o: "outbound (get_videos e) = [youtubeApiUrl (join '','' (map doc_videoId docs)) (youtubeApiKey e)]"
    using outbound_after_read [OF assms] by (simp add: videoIds_def)
  assume "0 < maxBatchSize"
  from ceiling_is_one [OF this, of "length docs"] o
  show "length (outbound (get_videos e)) = spec_outbound_calls (length docs) maxBatchSize
               \<longleftrightarrow> 1 \<le> length docs \<and> length docs \<le> maxBatchSize"
    by auto
next
  fix b
  assume "response (get_videos e) = \<lparr>status = 200, body = b\<rparr>"
  from success_positions [OF this] assms
  show "\<exists>data items outs.
               axios_get e (youtubeApiUrl (join '','' (map doc_videoId docs)) (youtubeApiKey e)) = Inr data \<and>
               get_prop data ''items'' = Inr (JArr items) \<and>
               b = JArr outs \<and>
               length outs = length items \<and>
               (length items \<le> length docs \<longrightarrow> length outs \<le> length docs)"
    by (auto simp: videoIds_def)
qed

theorem one_call_for_every_catalog_witness:
  "db two_ids_one_resolved = Some (Inr [\<lparr>doc_videoId = ''v1''\<rparr>, \<lparr>doc_videoId = ''v2''\<rparr>]) \<and>
   outbound (get_videos two_ids_one_resolved) =
     [''https://www.googleapis.com/youtube/v3/videos?part=snippet,contentDetails&id=v1,v2&key=KEY''] \<and>
   length (outbound (get_videos two_ids_one_resolved)) = spec_outbound_calls 2 50 \<and>
   (\<exists>outs. body (response (get_videos two_ids_one_resolved)) = JArr outs \<and> length outs \<le> 2)"
proof -
  have h: "db two_ids_one_resolved = Some (Inr [\<lparr>doc_videoId = ''v1''\<rparr>, \<lparr>doc_videoId = ''v2''\<rparr>])"
    by (simp add: two_ids_one_resolved_def)
  have u: "youtubeApiUrl (join '','' (map doc_videoId [\<lparr>doc_videoId = ''v1''\<rparr>, \<lparr>doc_videoId = ''v2''\<rparr>]))
      (youtubeApiKey two_ids_one_resolved) =
      ''https://www.googleapis.com/youtube/v3/videos?part=snippet,contentDetails&id=v1,v2&key=KEY''"
    by (simp add: two_ids_one_resolved_def youtubeApiUrl_def)
  have r: "response (get_videos two_ids_one_resolved) =
      \<lparr>status = 200, body = body (response (get_videos two_ids_one_resolved))\<rparr>"
    by (simp add: two_ids_one_resolved_run)
  note t = one_call_for_every_catalog [OF h, of 50]
  from t u have 1: "outbound (get_videos two_ids_one_resolved) =
     [''https://www.googleapis.com/youtube/v3/videos?part=snippet,contentDetails&id=v1,v2&key=KEY'']"
    by simp
  from conjunct1 [OF conjunct2 [OF t]]
  have "length (outbound (get_videos two_ids_one_resolved)) =
      spec_outbound_calls (length [\<lparr>doc_videoId = ''v1''\<rparr>, \<lparr>doc_videoId = ''v2''\<rparr>]) 50"
    by simp
  then have 2: "length (outbound (get_videos two_ids_one_resolved)) = spec_outbound_calls 2 50"
    by (simp add: numeral_2_eq_2)
  from t r obtain data items outs where
    a: "axios_get two_ids_one_resolved
          (youtubeApiUrl (join '','' (map doc_videoId [\<lparr>doc_videoId = ''v1''\<rparr>, \<lparr>doc_videoId = ''v2''\<rparr>]))
          (youtubeApiKey two_ids_one_resolved)) = Inr data" and
    g: "get_prop data ''items'' = Inr (JArr items)" and
    b: "body (response (get_videos two_ids_one_resolved)) = JArr outs" and
    i: "length items \<le> length [\<lparr>doc_videoId = ''v1''\<rparr>, \<lparr>doc_videoId = ''v2''\<rparr>] \<longrightarrow>
        length outs \<le> length [\<lparr>doc_videoId = ''v1''\<rparr>, \<lparr>doc_videoId = ''v2''\<rparr>]"
    by blast
  from a g have "length items = 1"
    unfolding u by (auto simp: two_ids_one_resolved_def answers_def base_url_def)
  with i have "length outs \<le> 2" by simp
  with b have 3: "\<exists>outs. body (response (get_videos two_ids_one_resolved)) = JArr outs \<and> length outs \<le> 2"
    by blast
  from h 1 2 3 show ?thesis by simp
qed

theorem no_batching_counterexample:
  "db three_ids_four_items =
     Some (Inr [\<lparr>doc_videoId = ''a''\<rparr>, \<lparr>doc_videoId = ''b''\<rparr>, \<lparr>doc_videoId = ''c''\<rparr>]) \<and>
   length (outbound (get_videos three_ids_four_items)) = 1 \<and>
   spec_outbound_calls 3 2 = 2 \<and>
   (\<exists>outs. response (get_videos three_ids_four_items) = \<lparr>status = 200, body = JArr outs\<rparr> \<and>
           length outs = 4)"
  by (simp add: three_ids_four_items_run spec_outbound_calls_def)
    (simp add: three_ids_four_items_def)

text \<open>
  C7. A 200 answer is the API's items, formatted one by one in the API's order: as
  many records as items, the record at each position made from the item at that
  position, the sequence of \<open>videoId\<close>s equal to the sequence of the items'
  \<open>id\<close>s. An id of the catalog that no item carries is the \<open>videoId\<close> of no
  record.
\<close>

theorem order_of_upstream_kept:
  assumes "response (get_videos e) = \<lparr>status = 200, body = b\<rparr>"
  shows "\<exists>docs data items outs.
           db e = Some (Inr docs) \<and>
           axios_get e (youtubeApiUrl (videoIds docs) (youtubeApiKey e)) = Inr data \<and>
           get_prop data ''items'' = Inr (JArr items) \<and>
           b = JArr outs \<and>
           length outs = length items \<and>
           (\<forall>i<length items. format_item (items ! i) = Inr (outs ! i)) \<and>
           map (\<lambda>out. get_prop out ''videoId'') outs = map (\<lambda>item. get_prop item ''id'') items \<and>
           (\<forall>d\<in>set docs.
              (\<forall>item\<in>set items. get_prop item ''id'' \<noteq> Inr (JStr (doc_videoId d))) \<longrightarrow>
              (\<forall>out\<in>set outs. get_prop out ''videoId'' \<noteq> Inr (JStr (doc_videoId d))))"
proof -
  from success_positions [OF assms] obtain docs data items outs where
    d: "db e = Some (Inr docs)" and
    a: "axios_get e (youtubeApiUrl (videoIds docs) (youtubeApiKey e)) = Inr data" and
    g: "get_prop data ''items'' = Inr (JArr items)" and
    b: "b = JArr outs" and
    len: "length outs = length items" and
    pos: "\<forall>i<length items. format_item (items ! i) = Inr (outs ! i)"
    by blast
  from len pos have m: "map (\<lambda>out. get_prop out ''videoId'') outs = map (\<lambda>item. get_prop item ''id'') items"
    by (auto simp: list_eq_iff_nth_eq format_item_videoId)
  have "\<forall>d\<in>set docs.
              (\<forall>item\<in>set items. get_prop item ''id'' \<noteq> Inr (JStr (doc_videoId d))) \<longrightarrow>
              (\<forall>out\<in>set outs. get_prop out ''videoId'' \<noteq> Inr (JStr (doc_videoId d)))"
  proof (intro ballI impI)
    fix d :: catalog_doc and out
    assume h: "\<forall>item\<in>set items. get_prop item ''id'' \<noteq> Inr (JStr (doc_videoId d))"
      and o: "out \<in> set outs"
    from o have "get_prop out ''videoId'' \<in> set (map (\<lambda>out. get_prop out ''videoId'') outs)"
      by simp
    with m have "get_prop out ''videoId'' \<in> (\<lambda>item. get_prop item ''id'') ` set items"
      by simp
    with h show "get_prop out ''videoId'' \<noteq> Inr (JStr (doc_videoId d))"
      by auto
  qed
  with d a g b len pos m show ?thesis by blast
qed

theorem order_of_upstream_kept_witness:
  "response (get_videos two_ids_one_resolved) =
     \<lparr>status = 200, body = JArr
        [JObj [(''videoId'', JStr ''v1''), (''title'', JStr ''First''),
               (''channelTitle'', JStr ''Channel''),
               (''thumbnail'', JStr ''https://i.ytimg.com/vi/v1/hq.jpg''),
               (''duration'', JStr ''PT1M'')]]\<rparr> \<and>
   (\<exists>outs. body (response (get_videos two_ids_one_resolved)) = JArr outs \<and>
      length outs = 1 \<and>
      get_prop (outs ! 0) ''videoId'' \<noteq> Inr (JStr ''v2''))"
proof -
  let ?o = "JObj [(''videoId'', JStr ''v1''), (''title'', JStr ''First''),
               (''channelTitle'', JStr ''Channel''),
               (''thumbnail'', JStr ''https://i.ytimg.com/vi/v1/hq.jpg''),
               (''duration'', JStr ''PT1M'')]"
  have h: "response (get_videos two_ids_one_resolved) = \<lparr>status = 200, body = JArr [?o]\<rparr>"
    by (simp add: two_ids_one_resolved_run)
  from order_of_upstream_kept [OF h] obtain docs data items outs where
    d: "db two_ids_one_resolved = Some (Inr docs)" and
    a: "axios_get two_ids_one_resolved (youtubeApiUrl (videoIds docs) (youtubeApiKey two_ids_one_resolved)) = Inr data" and
    g: "get_prop data ''items'' = Inr (JArr items)" and
    b: "JArr [?o] = JArr outs" and
    u: "\<forall>d\<in>set docs.
              (\<forall>item\<in>set items. get_prop item ''id'' \<noteq> Inr (JStr (doc_videoId d))) \<longrightarrow>
              (\<forall>out\<in>set outs. get_prop out ''videoId'' \<noteq> Inr (JStr (doc_videoId d)))"
    by blast
  from d have docs: "docs = [\<lparr>doc_videoId = ''v1''\<rparr>, \<lparr>doc_videoId = ''v2''\<rparr>]"
    by (simp add: two_ids_one_resolved_def)
  from a g have items: "items =
      [youtube_item ''v1'' (JStr ''First'') ''Channel'' ''https://i.ytimg.com/vi/v1/hq.jpg'' ''PT1M'']"
    unfolding docs
    by (auto simp: two_ids_one_resolved_def answers_def base_url_def videoIds_def youtubeApiUrl_def)
  have "\<forall>item\<in>set items. get_prop item ''id'' \<noteq> Inr (JStr ''v2'')"
    unfolding items by (simp add: youtube_item_def)
  with u docs have "\<forall>out\<in>set outs. get_prop out ''videoId'' \<noteq> Inr (JStr ''v2'')"
    by simp
  with b have "get_prop (outs ! 0) ''videoId'' \<noteq> Inr (JStr ''v2'')" "length outs = 1"
    by auto
  with h show ?thesis by simp
qed

text \<open>
  C8. When the connection was never established or the query is rejected, the answer
  is a 500, no request is sent to the metadata API, the cause is logged, and the body
  is not an empty list.
\<close>

theorem store_failure_stops_request:
  assumes "db e = None \<or> (\<exists>err. db e = Some (Inl err))"
  shows "status (response (get_videos e)) = 500 \<and>
         outbound (get_videos e) = [] \<and>
         body (response (get_videos e)) \<noteq> JArr [] \<and>
         (\<exists>cause. console (get_videos e) = [(''Error fetching videos:'', cause)])"
  using assms
  by (auto dest!: try_block_store_unset try_block_store_rejects get_videos_caught
      simp: failure_response_def)

theorem store_failure_stops_request_witness:
  "db store_never_connected = None \<and>
   status (response (get_videos store_never_connected)) = 500 \<and>
   outbound (get_videos store_never_connected) = [] \<and>
   db store_query_fails = Some (Inl (StoreError ''connection timed out'')) \<and>
   status (response (get_videos store_query_fails)) = 500 \<and>
   outbound (get_videos store_query_fails) = []"
proof -
  have n: "db store_never_connected = None"
    by (simp add: store_never_connected_def)
  have q: "db store_query_fails = Some (Inl (StoreError ''connection timed out''))"
    by (simp add: store_query_fails_def)
  from store_failure_stops_request [of store_never_connected]
    store_failure_stops_request [of store_query_fails] n q
  show ?thesis by simp
qed

section \<open>The client's claims\<close>

text \<open>
  C5. From any state, after a request of \<open>fetchVideos\<close> ends with the records
  \<open>[A, B]\<close> the list is exactly \<open>[A, B]\<close> and the loader is \<open>Loaded\<close>; after a pull
  to refresh it is \<open>Refreshing\<close>; when that request then fails (in any of the three
  ways) the loader is \<open>Failed\<close> with the error string set, the list is still
  \<open>[A, B]\<close> and is what the content area shows. The \<open>finally\<close> block clears the
  refresh flag on every outcome of every request.
\<close>

theorem stale_list_survives_failed_refresh:
  assumes "fetch_fails r"
  shows "videos (run s0 [FetchSettled (Responded True (Some [A, B]))]) = [A, B] \<and>
         spec_phase (run s0 [FetchSettled (Responded True (Some [A, B]))]) = Loaded \<and>
         spec_phase (run s0 [FetchSettled (Responded True (Some [A, B])), PullToRefresh]) = Refreshing \<and>
         spec_phase (run s0 [FetchSettled (Responded True (Some [A, B])), PullToRefresh,
                             FetchSettled r]) = Failed \<and>
         error (run s0 [FetchSettled (Responded True (Some [A, B])), PullToRefresh,
                        FetchSettled r]) = Some ''Failed to fetch videos. Pull down to retry.'' \<and>
         videos (run s0 [FetchSettled (Responded True (Some [A, B])), PullToRefresh,
                         FetchSettled r]) = [A, B] \<and>
         content_area (run s0 [FetchSettled (Responded True (Some [A, B])), PullToRefresh,
                               FetchSettled r]) = VideoList [A, B] False \<and>
         (\<forall>r' s. \<not> refreshing (fetchVideos r' s) \<and> \<not> refreshing (step s (FetchSettled r')))"
proof -
  let ?s1 = "fetchVideos (Responded True (Some [A, B])) s0"
  let ?s2 = "onRefresh ?s1"
  let ?s3 = "fetchVideos r ?s2"
  have r1: "run s0 [FetchSettled (Responded True (Some [A, B]))] = ?s1"
    by (simp add: run_Cons run_Nil)
  have r2: "run s0 [FetchSettled (Responded True (Some [A, B])), PullToRefresh] = ?s2"
    by (simp add: run_Cons run_Nil)
  have r3: "run s0 [FetchSettled (Responded True (Some [A, B])), PullToRefresh, FetchSettled r] = ?s3"
    by (simp add: run_Cons run_Nil)
  have 1: "videos ?s1 = [A, B]" "spec_phase ?s1 = Loaded"
    by (simp_all add: fetchVideos_succeeds spec_phase_def)
  have 2: "spec_phase ?s2 = Refreshing"
    by (simp add: fetchVideos_succeeds onRefresh_def spec_phase_def)
  from fetchVideos_fails [OF assms, of ?s2] obtain cause where
    s3: "?s3 = ?s2\<lparr>error := Some ''Failed to fetch videos. Pull down to retry.'',
       consoleErrors := consoleErrors ?s2 @ [cause],
       isLoading := False, refreshing := False\<rparr>" ..
  have 3: "spec_phase ?s3 = Failed"
    "error ?s3 = Some ''Failed to fetch videos. Pull down to retry.''"
    "videos ?s3 = [A, B]"
    "content_area ?s3 = VideoList [A, B] False"
    unfolding s3
    by (simp_all add: spec_phase_def content_area_def fetchVideos_succeeds onRefresh_def)
  have 4: "\<forall>r' s. \<not> refreshing (fetchVideos r' s) \<and> \<not> refreshing (step s (FetchSettled r'))"
    by (simp add: fetchVideos_flags)
  from 1 2 3 4 show ?thesis
    unfolding r1 r2 r3 by (intro conjI)
qed

theorem stale_list_survives_failed_refresh_witness:
  "fetch_fails FetchRejected \<and> fetch_fails (Responded False (Some [])) \<and>
   run initial [FetchSettled (Responded True (Some [video_A, video_B])), PullToRefresh,
                FetchSettled FetchRejected] =
     \<lparr>isSplashVisible = True, videos = [video_A, video_B], selectedVideo = None,
      isLoading = False, error = Some ''Failed to fetch videos. Pull down to retry.'',
      infoModalVisible = False, refreshing = False, alerts = [],
      consoleErrors = [''fetch rejected'']\<rparr> \<and>
   content_area (run initial [FetchSettled (Responded True (Some [video_A, video_B])),
                              PullToRefresh, FetchSettled FetchRejected]) =
     VideoList [video_A, video_B] False \<and>
   spec_phase (run initial [FetchSettled (Responded True (Some [video_A, video_B])),
                            PullToRefresh, FetchSettled (Responded False (Some []))]) = Failed \<and>
   videos (run initial [FetchSettled (Responded True (Some [video_A, video_B])),
                        PullToRefresh, FetchSettled (Responded False (Some []))]) =
     [video_A, video_B]"
proof -
  have f: "fetch_fails FetchRejected" "fetch_fails (Responded False (Some []))"
    by simp_all
  have e: "run initial [FetchSettled (Responded True (Some [video_A, video_B])), PullToRefresh,
                FetchSettled FetchRejected] =
     \<lparr>isSplashVisible = True, videos = [video_A, video_B], selectedVideo = None,
      isLoading = False, error = Some ''Failed to fetch videos. Pull down to retry.'',
      infoModalVisible = False, refreshing = False, alerts = [],
      consoleErrors = [''fetch rejected'']\<rparr>"
    by (simp add: run_def initial_def fetchVideos_def fetch_failed_def onRefresh_def)
  from stale_list_survives_failed_refresh [OF f(1), of initial video_A video_B]
    stale_list_survives_failed_refresh [OF f(2), of initial video_A video_B] f e
  show ?thesis by simp
qed

text \<open>
  C9. On the player's state \<open>ended\<close> the selected video is cleared, so the overlay is
  no longer rendered, and no alert is shown. On the player's error an alert is added
  and the selected video is cleared: the handler is \<open>closePlayer\<close> applied to the state
  that already holds the alert. After either, whatever events follow, the overlay stays
  away until the user presses a list item: nothing plays the video again.
\<close>

theorem player_closes_for_good:
  "selectedVideo (onPlayerStateChange ''ended'' s) = None \<and>
   player_of (render (onPlayerStateChange ''ended'' s)) = None \<and>
   alerts (onPlayerStateChange ''ended'' s) = alerts s \<and>
   selectedVideo (onPlayerError err s) = None \<and>
   player_of (render (onPlayerError err s)) = None \<and>
   alerts (onPlayerError err s) =
     alerts s @ [(''Playback Error'',
                  ''This video cannot be played. It may be restricted by the owner.'')] \<and>
   (\<exists>s'. alerts s' = alerts (onPlayerError err s) \<and> selectedVideo s' = selectedVideo s \<and>
         onPlayerError err s = closePlayer s') \<and>
   (\<forall>es. (\<forall>e\<in>set es. \<not> is_press_item e) \<longrightarrow>
      player_of (render (run (onPlayerStateChange ''ended'' s) es)) = None \<and>
      player_of (render (run (onPlayerError err s) es)) = None)"
proof (intro conjI allI impI)
  show "selectedVideo (onPlayerStateChange ''ended'' s) = None"
    by (simp add: onPlayerStateChange_def closePlayer_def)
  show "player_of (render (onPlayerStateChange ''ended'' s)) = None"
    by (simp add: player_of_render onPlayerStateChange_def closePlayer_def)
  show "alerts (onPlayerStateChange ''ended'' s) = alerts s"
    by (simp add: onPlayerStateChange_def closePlayer_def)
  show "selectedVideo (onPlayerError err s) = None"
    by (simp add: onPlayerError_def closePlayer_def)
  show "player_of (render (onPlayerError err s)) = None"
    by (simp add: player_of_render onPlayerError_def closePlayer_def)
  show "alerts (onPlayerError err s) =
     alerts s @ [(''Playback Error'',
                  ''This video cannot be played. It may be restricted by the owner.'')]"
    by (simp add: onPlayerError_def closePlayer_def)
  show "\<exists>s'. alerts s' = alerts (onPlayerError err s) \<and> selectedVideo s' = selectedVideo s \<and>
         onPlayerError err s = closePlayer s'"
    by (rule exI [of _ "s\<lparr>consoleErrors := consoleErrors s @ [''YouTube Player Error:'' @ err],
          alerts := alerts s @
            [(''Playback Error'',
              ''This video cannot be played. It may be restricted by the owner.'')]\<rparr>"])
      (simp add: onPlayerError_def closePlayer_def)
next
  fix es
  assume h: "\<forall>e\<in>set es. \<not> is_press_item e"
  have "selectedVideo (onPlayerStateChange ''ended'' s) = None"
    by (simp add: onPlayerStateChange_def closePlayer_def)
  from run_stays_closed [OF h this]
  show "player_of (render (run (onPlayerStateChange ''ended'' s) es)) = None"
    by (simp add: player_of_render)
next
  fix es
  assume h: "\<forall>e\<in>set es. \<not> is_press_item e"
  have "selectedVideo (onPlayerError err s) = None"
    by (simp add: onPlayerError_def closePlayer_def)
  from run_stays_closed [OF h this]
  show "player_of (render (run (onPlayerError err s) es)) = None"
    by (simp add: player_of_render)
qed

theorem player_closes_for_good_witness:
  "player_of (render playing_A) = Some video_A \<and>
   player_of (render (step playing_A (PlayerStateChange ''ended''))) = None \<and>
   player_of (render (step playing_A (PlayerError ''150''))) = None \<and>
   alerts (step playing_A (PlayerError ''150'')) =
     [(''Playback Error'', ''This video cannot be played. It may be restricted by the owner.'')] \<and>
   \<not> is_press_item (PlayerStateChange ''playing'') \<and> \<not> is_press_item PullToRefresh \<and>
   player_of (render (run (step playing_A (PlayerError ''150''))
     [PlayerStateChange ''playing'', PullToRefresh])) = None"
proof -
  have p: "player_of (render playing_A) = Some video_A"
    by (simp add: playing_A_def render_def)
  have a: "alerts playing_A = []"
    by (simp add: playing_A_def)
  have h: "\<forall>e\<in>set [PlayerStateChange ''playing'', PullToRefresh]. \<not> is_press_item e"
    by simp
  note t = player_closes_for_good [of playing_A "''150''"]
  from t h have "player_of (render (run (onPlayerError ''150'' playing_A)
     [PlayerStateChange ''playing'', PullToRefresh])) = None"
    by blast
  with t p a show ?thesis by simp
qed

text \<open>
  C10. \<open>isLoading\<close> starts true. After any sequence of events it is true exactly
  when no request of \<open>fetchVideos\<close> has ended yet, and the content area is the
  skeleton list exactly then: once a request has ended, whatever follows, the flag is
  false and the skeleton is not rendered. A pull to refresh is possible where the
  refresh control is, in the list of videos; from there, until the request ends, the
  content area is that same list with the refresh indicator on.
\<close>

theorem skeleton_only_before_first_settle:
  "isLoading initial \<and>
   (isLoading (run initial es) \<longleftrightarrow> (\<forall>e\<in>set es. \<not> is_settled e)) \<and>
   (content_area (run initial es) = Skeleton \<longleftrightarrow> (\<forall>e\<in>set es. \<not> is_settled e)) \<and>
   (\<forall>r es'. \<not> isLoading (run initial (es @ FetchSettled r # es')) \<and>
             content_area (run initial (es @ FetchSettled r # es')) \<noteq> Skeleton) \<and>
   (\<forall>s vs r es'. content_area s = VideoList vs r \<and> (\<forall>e\<in>set es'. \<not> is_settled e) \<longrightarrow>
      content_area (run (onRefresh s) es') = VideoList vs True)"
proof (intro conjI allI impI)
  show "isLoading initial" by (simp add: initial_def)
  then show i: "isLoading (run initial es) \<longleftrightarrow> (\<forall>e\<in>set es. \<not> is_settled e)"
    by (simp add: run_isLoading_iff)
  then show "content_area (run initial es) = Skeleton \<longleftrightarrow> (\<forall>e\<in>set es. \<not> is_settled e)"
    by (simp add: content_area_Skeleton_iff)
next
  fix r es'
  show "\<not> isLoading (run initial (es @ FetchSettled r # es'))"
    by (simp add: run_isLoading_iff)
  then show "content_area (run initial (es @ FetchSettled r # es')) \<noteq> Skeleton"
    by (simp add: content_area_Skeleton_iff)
next
  fix s vs r es'
  assume h: "content_area s = VideoList vs r \<and> (\<forall>e\<in>set es'. \<not> is_settled e)"
  then have u: "\<forall>e\<in>set es'. \<not> is_settled e" ..
  from h have c: "content_area s = VideoList vs r" ..
  have "refreshing (onRefresh s)" by (simp add: onRefresh_def)
  with run_unsettled [OF u, of "onRefresh s"]
  have "isLoading (run (onRefresh s) es') = isLoading s"
    "error (run (onRefresh s) es') = error s"
    "videos (run (onRefresh s) es') = videos s"
    "refreshing (run (onRefresh s) es')"
    by (simp_all add: onRefresh_def)
  with c show "content_area (run (onRefresh s) es') = VideoList vs True"
    by (auto simp: content_area_def split: if_splits option.splits)
qed

theorem skeleton_only_before_first_settle_witness:
  "content_area (run initial [SplashTimeout, PressInfo]) = Skeleton \<and>
   content_area (run initial [FetchSettled (Responded True (Some [video_A, video_B]))]) =
     VideoList [video_A, video_B] False \<and>
   content_area (run initial [FetchSettled (Responded True (Some [video_A, video_B])),
                              PullToRefresh, SplashTimeout]) =
     VideoList [video_A, video_B] True \<and>
   \<not> isLoading (run initial [FetchSettled (Responded True (Some [video_A, video_B])),
                            PullToRefresh, FetchSettled FetchRejected])"
proof -
  let ?ok = "FetchSettled (Responded True (Some [video_A, video_B]))"
  have 1: "content_area (run initial [SplashTimeout, PressInfo]) = Skeleton"
    using skeleton_only_before_first_settle [of "[SplashTimeout, PressInfo]"] by simp
  have c: "content_area (run initial [?ok]) = VideoList [video_A, video_B] False"
    by (simp add: run_def initial_def fetchVideos_def content_area_def)
  have u: "\<forall>e\<in>set [SplashTimeout]. \<not> is_settled e"
    by simp
  from skeleton_only_before_first_settle [of "[]"]
  have "\<forall>s vs r es'. content_area s = VideoList vs r \<and> (\<forall>e\<in>set es'. \<not> is_settled e) \<longrightarrow>
      content_area (run (onRefresh s) es') = VideoList vs True"
    by blast
  with c u have "content_area (run (onRefresh (run initial [?ok])) [SplashTimeout]) =
      VideoList [video_A, video_B] True"
    by blast
  then have 2: "content_area (run initial [?ok, PullToRefresh, SplashTimeout]) =
      VideoList [video_A, video_B] True"
    by (simp add: run_def)
  have 3: "\<not> isLoading (run initial [?ok, PullToRefresh, FetchSettled FetchRejected])"
    using skeleton_only_before_first_settle [of "[?ok, PullToRefresh, FetchSettled FetchRejected]"]
    by simp
  from 1 c 2 3 show ?thesis by (intro conjI)
qed

end
